theory Spec2Isabelle
  imports Complex_Main "HOL-Library.Sublist" "HOL-Library.Multiset" "HOL-Library.Word"
begin

section \<open>Go values\<close>

text \<open>
  A Go \<^verbatim>\<open>string\<close> is a sequence of bytes: \<^typ>\<open>string\<close>. A \<^verbatim>\<open>uint64\<close> is a
  \<^typ>\<open>64 word\<close>. A \<^verbatim>\<open>float64\<close> is a finite number, an infinity or NaN; the rounding of
  the finite numbers is outside the model. An \<^verbatim>\<open>error\<close> is one of the values below;
  \<open>ErrMsg\<close> carries the text of any error without a name of its own.
\<close>

datatype float64 = Finite real | PosInf | NegInf | NaN

text \<open>\<^verbatim>\<open>math.IsInf(f, 0) || math.IsNaN(f)\<close> does not hold.\<close>

fun IsFinite :: "float64 \<Rightarrow> bool" where
  "IsFinite (Finite x) = True"
| "IsFinite PosInf = False"
| "IsFinite NegInf = False"
| "IsFinite NaN = False"

text \<open>The quotient \<^verbatim>\<open>f / d\<close> of a \<^verbatim>\<open>float64\<close> by a finite constant \<open>d\<close> above 0.\<close>

fun float_div :: "float64 \<Rightarrow> real \<Rightarrow> float64" where
  "float_div (Finite x) d = Finite (x / d)"
| "float_div PosInf d = PosInf"
| "float_div NegInf d = NegInf"
| "float_div NaN d = NaN"

datatype error = ErrNotExist | ErrSyntax | ErrRange | ErrMsg string

fun ErrorText :: "error \<Rightarrow> string" where
  "ErrorText ErrNotExist = ''file does not exist''"
| "ErrorText ErrSyntax = ''invalid syntax''"
| "ErrorText ErrRange = ''value out of range''"
| "ErrorText (ErrMsg m) = m"

text \<open>\<^verbatim>\<open>os.IsNotExist(err)\<close>; a nil error is \<open>None\<close>.\<close>

fun IsNotExist :: "error option \<Rightarrow> bool" where
  "IsNotExist (Some ErrNotExist) = True"
| "IsNotExist _ = False"

section \<open>The library functions the readers call\<close>

subsection \<open>White space: \<^verbatim>\<open>strings.Fields\<close> and \<^verbatim>\<open>strings.TrimSpace\<close>\<close>

text \<open>
  Both functions use \<^verbatim>\<open>unicode.IsSpace\<close> on the runes of the UTF-8 text. The list holds
  the encoding of every rune it accepts: the six ASCII ones, U+0085, U+00A0, U+1680,
  U+2000 to U+200A, U+2028, U+2029, U+202F, U+205F and U+3000. Each multi-byte encoding
  starts with a lead byte and goes on with continuation bytes only, so a rune decoder
  is at a rune boundary wherever one of them starts (and, backwards, wherever one
  ends): reading the bytes for these encodings finds the same white space as decoding
  the runes.
\<close>

definition space_encodings :: "string list" where
  "space_encodings =
    [[CHR 0x09], [CHR 0x0A], [CHR 0x0B], [CHR 0x0C], [CHR 0x0D], [CHR 0x20],
     [CHR 0xC2, CHR 0x85], [CHR 0xC2, CHR 0xA0],
     [CHR 0xE1, CHR 0x9A, CHR 0x80],
     [CHR 0xE2, CHR 0x80, CHR 0x80], [CHR 0xE2, CHR 0x80, CHR 0x81],
     [CHR 0xE2, CHR 0x80, CHR 0x82], [CHR 0xE2, CHR 0x80, CHR 0x83],
     [CHR 0xE2, CHR 0x80, CHR 0x84], [CHR 0xE2, CHR 0x80, CHR 0x85],
     [CHR 0xE2, CHR 0x80, CHR 0x86], [CHR 0xE2, CHR 0x80, CHR 0x87],
     [CHR 0xE2, CHR 0x80, CHR 0x88], [CHR 0xE2, CHR 0x80, CHR 0x89],
     [CHR 0xE2, CHR 0x80, CHR 0x8A],
     [CHR 0xE2, CHR 0x80, CHR 0xA8], [CHR 0xE2, CHR 0x80, CHR 0xA9],
     [CHR 0xE2, CHR 0x80, CHR 0xAF],
     [CHR 0xE2, CHR 0x81, CHR 0x9F],
     [CHR 0xE3, CHR 0x80, CHR 0x80]]"

text \<open>The number of bytes of the white-space rune \<open>s\<close> starts with; 0 when it starts with none.\<close>

definition space_width :: "string \<Rightarrow> nat" where
  "space_width s = (case find (\<lambda>e. prefix e s) space_encodings of None \<Rightarrow> 0 | Some e \<Rightarrow> length e)"

text \<open>
  \<^verbatim>\<open>strings.Fields(s)\<close>: the maximal runs of bytes between white space, in order.
  \<open>skip\<close> counts the bytes of a white-space rune still to pass over, \<open>cur\<close> is the field
  being read.
\<close>

fun Fields_from :: "nat \<Rightarrow> string \<Rightarrow> string \<Rightarrow> string list" where
  "Fields_from skip cur [] = (if cur = [] then [] else [cur])"
| "Fields_from (Suc skip) cur (c # cs) = Fields_from skip cur cs"
| "Fields_from 0 cur (c # cs) =
     (case space_width (c # cs) of
        0 \<Rightarrow> Fields_from 0 (cur @ [c]) cs
      | Suc k \<Rightarrow> (if cur = [] then [] else [cur]) @ Fields_from k [] cs)"

definition Fields :: "string \<Rightarrow> string list" where
  "Fields s = Fields_from 0 [] s"

text \<open>\<^verbatim>\<open>strings.TrimSpace(s)\<close>: \<open>s\<close> without its leading and trailing white space.\<close>

fun TrimLeft_from :: "nat \<Rightarrow> string \<Rightarrow> string" where
  "TrimLeft_from skip [] = []"
| "TrimLeft_from (Suc skip) (c # cs) = TrimLeft_from skip cs"
| "TrimLeft_from 0 (c # cs) =
     (case space_width (c # cs) of 0 \<Rightarrow> c # cs | Suc k \<Rightarrow> TrimLeft_from k cs)"

definition space_width_end :: "string \<Rightarrow> nat" where
  "space_width_end r =
     (case find (\<lambda>e. prefix (rev e) r) space_encodings of None \<Rightarrow> 0 | Some e \<Rightarrow> length e)"

fun TrimRight_from :: "nat \<Rightarrow> string \<Rightarrow> string" where
  "TrimRight_from skip [] = []"
| "TrimRight_from (Suc skip) (c # cs) = TrimRight_from skip cs"
| "TrimRight_from 0 (c # cs) =
     (case space_width_end (c # cs) of 0 \<Rightarrow> c # cs | Suc k \<Rightarrow> TrimRight_from k cs)"

definition TrimSpace :: "string \<Rightarrow> string" where
  "TrimSpace s = rev (TrimRight_from 0 (rev (TrimLeft_from 0 s)))"

subsection \<open>\<^verbatim>\<open>strings.HasPrefix\<close>, \<^verbatim>\<open>strings.Split\<close>, \<^verbatim>\<open>filepath.Join\<close>\<close>

definition HasPrefix :: "string \<Rightarrow> string \<Rightarrow> bool" where
  "HasPrefix s p = prefix p s"

text \<open>\<^verbatim>\<open>strings.Split(s, sep)\<close> for a separator of one byte, the only kind the readers use.\<close>

fun Split_from :: "string \<Rightarrow> char \<Rightarrow> string \<Rightarrow> string list" where
  "Split_from cur sep [] = [cur]"
| "Split_from cur sep (c # cs) =
     (if c = sep then cur # Split_from [] sep cs else Split_from (cur @ [c]) sep cs)"

definition Split :: "string \<Rightarrow> char \<Rightarrow> string list" where
  "Split s sep = Split_from [] sep s"

text \<open>
  \<^verbatim>\<open>filepath.Join(dir, name)\<close> for a clean \<open>dir\<close> and a directory entry's \<open>name\<close>: an
  entry's name holds no separator and is neither \<^verbatim>\<open>.\<close> nor \<^verbatim>\<open>..\<close>, so cleaning the joined
  path changes nothing.
\<close>

definition Join :: "string \<Rightarrow> string \<Rightarrow> string" where
  "Join dir name = dir @ ''/'' @ name"

subsection \<open>\<^verbatim>\<open>strconv.ParseUint\<close> and \<^verbatim>\<open>strconv.Atoi\<close>\<close>

definition is_digit :: "char \<Rightarrow> bool" where
  "is_digit c = ((of_char CHR ''0'' :: nat) \<le> of_char c \<and> (of_char c :: nat) \<le> of_char CHR ''9'')"

definition digit_val :: "char \<Rightarrow> nat" where
  "digit_val c = of_char c - of_char CHR ''0''"

text \<open>
  The digit loop of \<^verbatim>\<open>ParseUint\<close> in base 10: it reads from the left and stops at the
  first byte that is no digit (a syntax error, value 0) or at the first digit that
  takes the value above \<open>maxVal\<close> (a range error, value \<open>maxVal\<close>).
\<close>

fun parse_digits :: "nat \<Rightarrow> nat \<Rightarrow> string \<Rightarrow> nat \<times> error option" where
  "parse_digits maxVal n [] = (n, None)"
| "parse_digits maxVal n (c # cs) =
     (if \<not> is_digit c then (0, Some ErrSyntax)
      else if n * 10 + digit_val c > maxVal then (maxVal, Some ErrRange)
      else parse_digits maxVal (n * 10 + digit_val c) cs)"

text \<open>\<^verbatim>\<open>strconv.ParseUint(s, 10, 64)\<close>: Go returns the value and the error both.\<close>

definition ParseUint :: "string \<Rightarrow> 64 word \<times> error option" where
  "ParseUint s =
     (if s = [] then (0, Some ErrSyntax)
      else case parse_digits (2 ^ 64 - 1) 0 s of (n, e) \<Rightarrow> (of_nat n, e))"

text \<open>
  \<^verbatim>\<open>strconv.Atoi(s)\<close> where \<^verbatim>\<open>int\<close> has \<open>bits\<close> bits: an optional sign, then digits; the
  value must lie between \<open>- 2 ^ (bits - 1)\<close> and \<open>2 ^ (bits - 1) - 1\<close>.
\<close>

definition Atoi :: "nat \<Rightarrow> string \<Rightarrow> error + int" where
  "Atoi bits s =
     (let neg = (s \<noteq> [] \<and> hd s = CHR ''-'');
          ds = (if s \<noteq> [] \<and> (hd s = CHR ''-'' \<or> hd s = CHR ''+'') then tl s else s)
      in if ds = [] then Inl ErrSyntax
         else case parse_digits (2 ^ bits - 1) 0 ds of
           (un, Some e) \<Rightarrow> Inl e
         | (un, None) \<Rightarrow>
             if \<not> neg \<and> un \<ge> 2 ^ (bits - 1) then Inl ErrRange
             else if neg \<and> un > 2 ^ (bits - 1) then Inl ErrRange
             else Inr (if neg then - int un else int un))"

subsection \<open>\<^verbatim>\<open>bufio.Scanner\<close> with the default line splitter\<close>

text \<open>
  The lines \<^verbatim>\<open>scanner.Scan()\<close> delivers for a reader that yields \<open>content\<close>: the text is
  cut at every newline, a trailing carriage return is dropped from each line, and an
  empty rest after the last newline is no line. The scanner's buffer holds
  \<^verbatim>\<open>bufio.MaxScanTokenSize\<close> bytes: at a line that does not fit, \<^verbatim>\<open>Scan\<close> returns false and
  the loop over the lines ends there.
\<close>

definition MaxScanTokenSize :: nat where
  "MaxScanTokenSize = 64 * 1024"

fun raw_lines :: "string \<Rightarrow> string \<Rightarrow> string list" where
  "raw_lines cur [] = (if cur = [] then [] else [cur])"
| "raw_lines cur (c # cs) =
     (if c = CHR 0x0A then cur # raw_lines [] cs else raw_lines (cur @ [c]) cs)"

definition dropCR :: "string \<Rightarrow> string" where
  "dropCR l = (if l \<noteq> [] \<and> last l = CHR 0x0D then butlast l else l)"

definition scan_lines :: "string \<Rightarrow> string list" where
  "scan_lines content =
     map dropCR (takeWhile (\<lambda>l. length l < MaxScanTokenSize) (raw_lines [] content))"

section \<open>The snapshot\<close>

text \<open>
  The structs of \<^verbatim>\<open>monitor/system.go\<close>, field by field. A slice is a list and a Go map a
  partial function; a nil slice and an empty one are both \<open>[]\<close>, a nil map and an empty
  one both \<open>Map.empty\<close>. A \<^verbatim>\<open>time.Time\<close> is an instant of a discrete clock.
\<close>

record CPUStats =
  UsagePercent :: float64
  LoadAverage :: "float64 list"
  Temperature :: float64
  Frequency :: float64

record MemStats =
  Total :: "64 word"
  Used :: "64 word"
  Free :: "64 word"
  Available :: "64 word"
  UsagePercent :: float64

record DiskStats =
  Total :: "64 word"
  Used :: "64 word"
  Free :: "64 word"
  UsagePercent :: float64
  IORead :: "64 word"
  IOWrite :: "64 word"

record TempStats =
  CPU :: float64
  GPU :: float64
  Board :: float64
  Ambient :: float64

record GPIOState =
  Pin :: string
  Value :: int
  Mode :: string

record GPIOStats =
  Pins :: "string \<rightharpoonup> GPIOState"

record SystemStats =
  Timestamp :: nat
  CPU :: CPUStats
  Memory :: MemStats
  Disk :: DiskStats
  Temperature :: TempStats
  GPIO :: GPIOStats

record DiskIOStats =
  Read :: "64 word"
  Write :: "64 word"

text \<open>The zero values, which Go gives to every field a composite literal leaves out.\<close>

definition CPUStats_zero :: CPUStats where
  "CPUStats_zero =
     \<lparr>CPUStats.UsagePercent = Finite 0, CPUStats.LoadAverage = [],
      CPUStats.Temperature = Finite 0, CPUStats.Frequency = Finite 0\<rparr>"

definition MemStats_zero :: MemStats where
  "MemStats_zero =
     \<lparr>MemStats.Total = 0, MemStats.Used = 0, MemStats.Free = 0, MemStats.Available = 0,
      MemStats.UsagePercent = Finite 0\<rparr>"

definition DiskStats_zero :: DiskStats where
  "DiskStats_zero =
     \<lparr>DiskStats.Total = 0, DiskStats.Used = 0, DiskStats.Free = 0,
      DiskStats.UsagePercent = Finite 0, DiskStats.IORead = 0, DiskStats.IOWrite = 0\<rparr>"

definition TempStats_zero :: TempStats where
  "TempStats_zero =
     \<lparr>TempStats.CPU = Finite 0, TempStats.GPU = Finite 0, TempStats.Board = Finite 0,
      TempStats.Ambient = Finite 0\<rparr>"

definition GPIOStats_zero :: GPIOStats where
  "GPIOStats_zero = \<lparr>GPIOStats.Pins = Map.empty\<rparr>"

definition DiskIOStats_zero :: DiskIOStats where
  "DiskIOStats_zero = \<lparr>DiskIOStats.Read = 0, DiskIOStats.Write = 0\<rparr>"

definition SystemStats_zero :: SystemStats where
  "SystemStats_zero =
     \<lparr>SystemStats.Timestamp = 0, SystemStats.CPU = CPUStats_zero,
      SystemStats.Memory = MemStats_zero, SystemStats.Disk = DiskStats_zero,
      SystemStats.Temperature = TempStats_zero, SystemStats.GPIO = GPIOStats_zero\<rparr>"

section \<open>The operating system\<close>

text \<open>
  The readers ask the operating system and three libraries; \<open>os\<close> holds the answers, one per
  call and argument. A snapshot build makes each call at most once per argument, so a
  function of the argument gives every answer of one build.

  \<^item> \<open>ReadFile\<close> is \<^verbatim>\<open>ioutil.ReadFile\<close>.
  \<^item> \<open>Open\<close> is \<^verbatim>\<open>os.Open\<close> and the reads that follow it: the bytes the file delivers up to
    its end or to its first read error, where a scanner ends the same way.
  \<^item> \<open>Stat\<close> is the error of \<^verbatim>\<open>os.Stat\<close>, \<open>ReadDir\<close> the entries' names of \<^verbatim>\<open>ioutil.ReadDir\<close>.
  \<^item> \<open>cpu_Percent\<close> is \<^verbatim>\<open>cpu.Percent(0, false)\<close>, \<open>mem_VirtualMemory\<close> is
    \<^verbatim>\<open>mem.VirtualMemory()\<close>, \<open>disk_Usage\<close> is \<^verbatim>\<open>disk.Usage\<close>, with the fields the readers use.
  \<^item> \<open>ParseFloat\<close> is \<^verbatim>\<open>strconv.ParseFloat(s, 64)\<close>: the conversion of a text to a \<^verbatim>\<open>float64\<close>
    is not modelled, the readers are verified for any such function. The function of
    the library accepts the texts of NaN and of the infinities with a nil error.
  \<^item> \<open>IntSize\<close> is the number of bits of an \<^verbatim>\<open>int\<close>, 32 or 64.
\<close>

record VirtualMemoryStat =
  Total :: "64 word"
  Available :: "64 word"
  Used :: "64 word"
  UsedPercent :: float64
  Free :: "64 word"

record UsageStat =
  Total :: "64 word"
  Free :: "64 word"
  Used :: "64 word"
  UsedPercent :: float64

record os =
  ReadFile :: "string \<Rightarrow> error + string"
  Open :: "string \<Rightarrow> error + string"
  Stat :: "string \<Rightarrow> error option"
  ReadDir :: "string \<Rightarrow> error + string list"
  cpu_Percent :: "error + float64 list"
  mem_VirtualMemory :: "error + VirtualMemoryStat"
  disk_Usage :: "string \<Rightarrow> error + UsageStat"
  ParseFloat :: "string \<Rightarrow> error + float64"
  IntSize :: nat

section \<open>The readers of \<^verbatim>\<open>monitor/system.go\<close>\<close>

text \<open>
  A Go result \<^verbatim>\<open>(*T, error)\<close> or \<^verbatim>\<open>(T, error)\<close> of these functions is a value with a nil
  error or an error whose value no caller reads: \<open>Inr\<close> the value, \<open>Inl\<close> the error.
\<close>

subsection \<open>\<^verbatim>\<open>readLoadAverage\<close>\<close>

text \<open>The loop over the fields: it returns at the first field that does not parse.\<close>

fun parse_loads :: "(string \<Rightarrow> error + float64) \<Rightarrow> string list \<Rightarrow> error + float64 list" where
  "parse_loads pf [] = Inr []"
| "parse_loads pf (f # fs) =
     (case pf f of
        Inl err \<Rightarrow> Inl err
      | Inr v \<Rightarrow> (case parse_loads pf fs of Inl err \<Rightarrow> Inl err | Inr vs \<Rightarrow> Inr (v # vs)))"

definition readLoadAverage :: "os \<Rightarrow> error + float64 list" where
  "readLoadAverage e =
     (case ReadFile e ''/proc/loadavg'' of
        Inl err \<Rightarrow> Inl err
      | Inr data \<Rightarrow>
          (let fields = Fields data
           in if length fields < 3 then Inl (ErrMsg ''invalid loadavg format'')
              else parse_loads (ParseFloat e) (take 3 fields)))"

subsection \<open>\<^verbatim>\<open>readCPUFrequency\<close>\<close>

fun scan_cpuinfo :: "(string \<Rightarrow> error + float64) \<Rightarrow> string list \<Rightarrow> error + float64" where
  "scan_cpuinfo pf [] = Inl (ErrMsg ''cpu frequency not found'')"
| "scan_cpuinfo pf (line # ls) =
     (if HasPrefix line ''cpu MHz'' then
        (let parts = Split line CHR '':''
         in if length parts = 2 then
              (case pf (TrimSpace (parts ! 1)) of
                 Inr freq \<Rightarrow> Inr freq
               | Inl err \<Rightarrow> scan_cpuinfo pf ls)
            else scan_cpuinfo pf ls)
      else scan_cpuinfo pf ls)"

definition readCPUFrequency :: "os \<Rightarrow> error + float64" where
  "readCPUFrequency e =
     (case Open e ''/proc/cpuinfo'' of
        Inl err \<Rightarrow> Inl err
      | Inr content \<Rightarrow> scan_cpuinfo (ParseFloat e) (scan_lines content))"

subsection \<open>\<^verbatim>\<open>readTemperature\<close>\<close>

definition readTemperature :: "os \<Rightarrow> string \<Rightarrow> error + float64" where
  "readTemperature e path =
     (case ReadFile e path of
        Inl err \<Rightarrow> Inl err
      | Inr data \<Rightarrow>
          (case ParseFloat e (TrimSpace data) of
             Inl err \<Rightarrow> Inl err
           | Inr temp \<Rightarrow> Inr (float_div temp 1000)))"

subsection \<open>\<^verbatim>\<open>readGPIOState\<close>\<close>

text \<open>The value and the mode, in the order of the Go result.\<close>

definition readGPIOState :: "os \<Rightarrow> string \<Rightarrow> error + int \<times> string" where
  "readGPIOState e gpioPath =
     (case ReadFile e (Join gpioPath ''direction'') of
        Inl err \<Rightarrow> Inl err
      | Inr direction \<Rightarrow>
          (let mode = TrimSpace direction
           in case ReadFile e (Join gpioPath ''value'') of
                Inl err \<Rightarrow> Inl err
              | Inr valueData \<Rightarrow>
                  (case Atoi (IntSize e) (TrimSpace valueData) of
                     Inl err \<Rightarrow> Inl err
                   | Inr v \<Rightarrow> Inr (v, mode))))"

subsection \<open>\<^verbatim>\<open>readDiskIO\<close>\<close>

text \<open>
  The loop over the scanned lines. The errors of both \<^verbatim>\<open>ParseUint\<close> calls are dropped and
  the values kept.
\<close>

fun scan_diskstats :: "string list \<Rightarrow> DiskIOStats" where
  "scan_diskstats [] = DiskIOStats_zero"
| "scan_diskstats (line # ls) =
     (let fields = Fields line
      in if length fields \<ge> 14 \<and> (fields ! 2 = ''sda'' \<or> fields ! 2 = ''mmcblk0'') then
           \<lparr>DiskIOStats.Read = fst (ParseUint (fields ! 3)),
            DiskIOStats.Write = fst (ParseUint (fields ! 7))\<rparr>
         else scan_diskstats ls)"

definition readDiskIO :: "os \<Rightarrow> error + DiskIOStats" where
  "readDiskIO e =
     (case Open e ''/proc/diskstats'' of
        Inl err \<Rightarrow> Inl err
      | Inr content \<Rightarrow> Inr (scan_diskstats (scan_lines content)))"



subsection \<open>\<^verbatim>\<open>getCPUStats\<close>, \<^verbatim>\<open>getMemoryStats\<close>, \<^verbatim>\<open>getDiskStats\<close>\<close>

definition getCPUStats :: "os \<Rightarrow> error + CPUStats" where
  "getCPUStats e =
     (let stats = CPUStats_zero;
          stats = (case cpu_Percent e of
                     Inr usage \<Rightarrow>
                       if length usage > 0 then stats\<lparr>CPUStats.UsagePercent := usage ! 0\<rparr>
                       else stats
                   | Inl err \<Rightarrow> stats);
          stats = (case readLoadAverage e of
                     Inr loadAvg \<Rightarrow> stats\<lparr>CPUStats.LoadAverage := loadAvg\<rparr>
                   | Inl err \<Rightarrow> stats);
          stats = (case readCPUFrequency e of
                     Inr freq \<Rightarrow> stats\<lparr>CPUStats.Frequency := freq\<rparr>
                   | Inl err \<Rightarrow> stats)
      in Inr stats)"

definition getMemoryStats :: "os \<Rightarrow> error + MemStats" where
  "getMemoryStats e =
     (case mem_VirtualMemory e of
        Inl err \<Rightarrow> Inl err
      | Inr vmstat \<Rightarrow>
          Inr \<lparr>MemStats.Total = VirtualMemoryStat.Total vmstat,
               MemStats.Used = VirtualMemoryStat.Used vmstat,
               MemStats.Free = VirtualMemoryStat.Free vmstat,
               MemStats.Available = VirtualMemoryStat.Available vmstat,
               MemStats.UsagePercent = VirtualMemoryStat.UsedPercent vmstat\<rparr>)"

definition getDiskStats :: "os \<Rightarrow> error + DiskStats" where
  "getDiskStats e =
     (case disk_Usage e ''/'' of
        Inl err \<Rightarrow> Inl err
      | Inr usage \<Rightarrow>
          (let stats = \<lparr>DiskStats.Total = UsageStat.Total usage,
                        DiskStats.Used = UsageStat.Used usage,
                        DiskStats.Free = UsageStat.Free usage,
                        DiskStats.UsagePercent = UsageStat.UsedPercent usage,
                        DiskStats.IORead = 0, DiskStats.IOWrite = 0\<rparr>;
               stats = (case readDiskIO e of
                          Inr ioStats \<Rightarrow>
                            stats\<lparr>DiskStats.IORead := DiskIOStats.Read ioStats,
                                  DiskStats.IOWrite := DiskIOStats.Write ioStats\<rparr>
                        | Inl err \<Rightarrow> stats)
           in Inr stats))"

subsection \<open>\<^verbatim>\<open>getTemperatureStats\<close>\<close>

text \<open>
  \<open>tempPaths\<close> is a Go map and the loop ranges over it in an order the language leaves
  open: \<open>temperature_loop\<close> takes the order as the list of the entries it visits, and
  \<open>getTemperatureStats\<close> visits them in the order of the literal.
\<close>

definition tempPaths :: "(string \<times> string) list" where
  "tempPaths =
     [(''cpu'', ''/sys/class/thermal/thermal_zone0/temp''),
      (''gpu'', ''/sys/class/thermal/thermal_zone1/temp''),
      (''board'', ''/sys/class/thermal/thermal_zone2/temp''),
      (''ambient'', ''/sys/class/thermal/thermal_zone3/temp'')]"

text \<open>The \<^verbatim>\<open>switch sensor\<close>.\<close>

definition assign_sensor :: "TempStats \<Rightarrow> string \<Rightarrow> float64 \<Rightarrow> TempStats" where
  "assign_sensor stats sensor temp =
     (if sensor = ''cpu'' then stats\<lparr>TempStats.CPU := temp\<rparr>
      else if sensor = ''gpu'' then stats\<lparr>TempStats.GPU := temp\<rparr>
      else if sensor = ''board'' then stats\<lparr>TempStats.Board := temp\<rparr>
      else if sensor = ''ambient'' then stats\<lparr>TempStats.Ambient := temp\<rparr>
      else stats)"

fun temperature_loop :: "os \<Rightarrow> TempStats \<Rightarrow> (string \<times> string) list \<Rightarrow> TempStats" where
  "temperature_loop e stats [] = stats"
| "temperature_loop e stats ((sensor, path) # ps) =
     (case readTemperature e path of
        Inr temp \<Rightarrow> temperature_loop e (assign_sensor stats sensor temp) ps
      | Inl err \<Rightarrow> temperature_loop e stats ps)"

definition getTemperatureStats :: "os \<Rightarrow> error + TempStats" where
  "getTemperatureStats e = Inr (temperature_loop e TempStats_zero tempPaths)"

subsection \<open>\<^verbatim>\<open>getGPIOStats\<close>\<close>

fun gpio_loop :: "os \<Rightarrow> string \<Rightarrow> GPIOStats \<Rightarrow> string list \<Rightarrow> GPIOStats" where
  "gpio_loop e gpioPath stats [] = stats"
| "gpio_loop e gpioPath stats (name # files) =
     (if HasPrefix name ''gpio'' then
        (case readGPIOState e (Join gpioPath name) of
           Inr (v, mode) \<Rightarrow>
             gpio_loop e gpioPath
               (stats\<lparr>GPIOStats.Pins := (GPIOStats.Pins stats)
                  (name \<mapsto> \<lparr>GPIOState.Pin = name, GPIOState.Value = v, GPIOState.Mode = mode\<rparr>)\<rparr>)
               files
         | Inl err \<Rightarrow> gpio_loop e gpioPath stats files)
      else gpio_loop e gpioPath stats files)"

definition getGPIOStats :: "os \<Rightarrow> error + GPIOStats" where
  "getGPIOStats e =
     (let stats = \<lparr>GPIOStats.Pins = Map.empty\<rparr>;
          gpioPath = ''/sys/class/gpio''
      in if IsNotExist (Stat e gpioPath) then Inr stats
         else case ReadDir e gpioPath of
                Inr files \<Rightarrow> Inr (gpio_loop e gpioPath stats files)
              | Inl err \<Rightarrow> Inr stats)"

section \<open>\<^verbatim>\<open>GetSystemStats\<close>\<close>

text \<open>
  A snapshot build runs in a \<open>world\<close>: the answers of the operating system, a clock, the
  time each of the five readers takes, and the lines the logger has written. Calling a
  reader moves the clock on by the time the reader takes.
\<close>

datatype family = CPU_family | Memory_family | Disk_family | Temperature_family | GPIO_family

datatype level = InfoLevel | WarnLevel | ErrorLevel

record world =
  sys :: os
  clock :: nat
  elapse :: "family \<Rightarrow> nat"
  logged :: "(level \<times> string) list"

definition time_Now :: "world \<Rightarrow> nat" where
  "time_Now w = clock w"

definition Logf :: "level \<Rightarrow> string \<Rightarrow> world \<Rightarrow> world" where
  "Logf l msg w = w\<lparr>logged := logged w @ [(l, msg)]\<rparr>"

definition call_reader :: "family \<Rightarrow> (os \<Rightarrow> 'a) \<Rightarrow> world \<Rightarrow> 'a \<times> world" where
  "call_reader f reader w = (reader (sys w), w\<lparr>clock := clock w + elapse w f\<rparr>)"

definition GetSystemStats :: "world \<Rightarrow> (error + SystemStats) \<times> world" where
  "GetSystemStats w =
     (let stats = SystemStats_zero\<lparr>SystemStats.Timestamp := time_Now w\<rparr>;
          (r, w) = call_reader CPU_family getCPUStats w;
          (stats, w) =
            (case r of
               Inr cpuStats \<Rightarrow> (stats\<lparr>SystemStats.CPU := cpuStats\<rparr>, w)
             | Inl err \<Rightarrow> (stats, Logf WarnLevel (''Failed to get CPU stats: '' @ ErrorText err) w));
          (r, w) = call_reader Memory_family getMemoryStats w;
          (stats, w) =
            (case r of
               Inr memStats \<Rightarrow> (stats\<lparr>SystemStats.Memory := memStats\<rparr>, w)
             | Inl err \<Rightarrow> (stats, Logf WarnLevel (''Failed to get memory stats: '' @ ErrorText err) w));
          (r, w) = call_reader Disk_family getDiskStats w;
          (stats, w) =
            (case r of
               Inr diskStats \<Rightarrow> (stats\<lparr>SystemStats.Disk := diskStats\<rparr>, w)
             | Inl err \<Rightarrow> (stats, Logf WarnLevel (''Failed to get disk stats: '' @ ErrorText err) w));
          (r, w) = call_reader Temperature_family getTemperatureStats w;
          (stats, w) =
            (case r of
               Inr tempStats \<Rightarrow> (stats\<lparr>SystemStats.Temperature := tempStats\<rparr>, w)
             | Inl err \<Rightarrow>
                 (stats, Logf WarnLevel (''Failed to get temperature stats: '' @ ErrorText err) w));
          (r, w) = call_reader GPIO_family getGPIOStats w;
          (stats, w) =
            (case r of
               Inr gpioStats \<Rightarrow> (stats\<lparr>SystemStats.GPIO := gpioStats\<rparr>, w)
             | Inl err \<Rightarrow> (stats, Logf WarnLevel (''Failed to get GPIO stats: '' @ ErrorText err) w))
      in (Inr stats, w))"

section \<open>The web server of \<^verbatim>\<open>web/server.go\<close>\<close>

subsection \<open>The server and its connections\<close>

text \<open>
  A \<^verbatim>\<open>*websocket.Conn\<close> is a number. \<open>WebServer\<close> has the fields of the Go struct that the
  handlers use: \<open>monitor\<close> is the method \<^verbatim>\<open>GetSystemStats\<close> of \<^verbatim>\<open>ws.monitor\<close>, \<open>clients\<close> the
  keys of the map \<^verbatim>\<open>ws.clients\<close> (every value in it is \<^verbatim>\<open>true\<close>), \<open>mu\<close> the
  \<^verbatim>\<open>sync.RWMutex\<close>. With them it holds what the server has done to the world around it:
  \<open>env\<close> is the world the builds run in, \<open>closed\<close> the connections \<^verbatim>\<open>Close\<close> was called on,
  \<open>received\<close> the messages \<^verbatim>\<open>WriteJSON\<close> has written without an error.
\<close>

type_synonym conn = nat

record RWMutex =
  writer :: bool
  readers :: nat

record WebServer =
  monitor :: "world \<Rightarrow> (error + SystemStats) \<times> world"
  clients :: "conn set"
  mu :: RWMutex
  env :: world
  closed :: "conn set"
  received :: "(conn \<times> SystemStats) list"

definition NewWebServer :: "world \<Rightarrow> WebServer" where
  "NewWebServer w =
     \<lparr>monitor = GetSystemStats, clients = {}, mu = \<lparr>writer = False, readers = 0\<rparr>,
      env = w, closed = {}, received = []\<rparr>"

definition Errorf :: "string \<Rightarrow> WebServer \<Rightarrow> WebServer" where
  "Errorf msg ws = ws\<lparr>env := Logf ErrorLevel msg (env ws)\<rparr>"


subsection \<open>\<^verbatim>\<open>handleStats\<close>\<close>

text \<open>
  An \<^verbatim>\<open>http.ResponseWriter\<close>: the header map, the status code once the header is written,
  and the body. The first write of a body writes the header with status 200, and a
  second \<^verbatim>\<open>WriteHeader\<close> changes nothing. A body is the JSON encoding of a snapshot or a
  text. When the handler returns, the server sends the reply, with status 200 if the
  handler wrote no header: \<open>finishRequest\<close>.
\<close>

datatype payload = JSON SystemStats | PlainText string

record ResponseWriter =
  header :: "string \<rightharpoonup> string"
  status :: "nat option"
  body :: "payload list"

definition NewResponse :: ResponseWriter where
  "NewResponse = \<lparr>header = Map.empty, status = None, body = []\<rparr>"

definition Header_Set :: "string \<Rightarrow> string \<Rightarrow> ResponseWriter \<Rightarrow> ResponseWriter" where
  "Header_Set k v rw = rw\<lparr>header := (header rw)(k \<mapsto> v)\<rparr>"

definition WriteHeader :: "nat \<Rightarrow> ResponseWriter \<Rightarrow> ResponseWriter" where
  "WriteHeader code rw = (if status rw = None then rw\<lparr>status := Some code\<rparr> else rw)"

definition Write :: "payload \<Rightarrow> ResponseWriter \<Rightarrow> ResponseWriter" where
  "Write p rw = (let rw = WriteHeader 200 rw in rw\<lparr>body := body rw @ [p]\<rparr>)"

definition finishRequest :: "ResponseWriter \<Rightarrow> ResponseWriter" where
  "finishRequest rw = WriteHeader 200 rw"

text \<open>
  \<^verbatim>\<open>json.NewEncoder(w).Encode(stats)\<close>: the encoder encodes the whole snapshot first and
  writes it in one piece. A \<^verbatim>\<open>float64\<close> that is NaN or an infinity has no encoding: then
  the encoder writes nothing and returns an error. Every other field of a snapshot has
  an encoding, the stamp being an instant of the years 0 to 9999.
\<close>

definition json_supported :: "SystemStats \<Rightarrow> bool" where
  "json_supported stats =
     (IsFinite (CPUStats.UsagePercent (SystemStats.CPU stats)) \<and>
      list_all IsFinite (CPUStats.LoadAverage (SystemStats.CPU stats)) \<and>
      IsFinite (CPUStats.Temperature (SystemStats.CPU stats)) \<and>
      IsFinite (CPUStats.Frequency (SystemStats.CPU stats)) \<and>
      IsFinite (MemStats.UsagePercent (SystemStats.Memory stats)) \<and>
      IsFinite (DiskStats.UsagePercent (SystemStats.Disk stats)) \<and>
      IsFinite (TempStats.CPU (SystemStats.Temperature stats)) \<and>
      IsFinite (TempStats.GPU (SystemStats.Temperature stats)) \<and>
      IsFinite (TempStats.Board (SystemStats.Temperature stats)) \<and>
      IsFinite (TempStats.Ambient (SystemStats.Temperature stats)))"

definition Encode :: "SystemStats \<Rightarrow> ResponseWriter \<Rightarrow> ResponseWriter \<times> error option" where
  "Encode stats rw =
     (if json_supported stats then (Write (JSON stats) rw, None)
      else (rw, Some (ErrMsg ''json: unsupported value'')))"

definition StatusInternalServerError :: nat where
  "StatusInternalServerError = 500"

text \<open>\<^verbatim>\<open>http.Error(w, msg, code)\<close>: the message and a newline, as plain text.\<close>

definition http_Error :: "string \<Rightarrow> nat \<Rightarrow> ResponseWriter \<Rightarrow> ResponseWriter" where
  "http_Error msg code rw =
     Write (PlainText (msg @ [CHR 0x0A]))
       (WriteHeader code
         (Header_Set ''X-Content-Type-Options'' ''nosniff''
           (Header_Set ''Content-Type'' ''text/plain; charset=utf-8'' rw)))"

text \<open>The handler drops the error of \<open>Encode\<close>.\<close>

definition handleStats :: "WebServer \<Rightarrow> ResponseWriter \<Rightarrow> ResponseWriter \<times> WebServer" where
  "handleStats ws rw =
     (case monitor ws (env ws) of
        (Inl err, w) \<Rightarrow> (http_Error (ErrorText err) StatusInternalServerError rw, ws\<lparr>env := w\<rparr>)
      | (Inr stats, w) \<Rightarrow>
          (fst (Encode stats (Header_Set ''Content-Type'' ''application/json'' rw)),
           ws\<lparr>env := w\<rparr>))"

subsection \<open>\<^verbatim>\<open>broadcastStats\<close>: one tick\<close>

text \<open>
  The body of the loop over \<^verbatim>\<open>ws.clients\<close> for one client, \<open>r\<close> being the error of
  \<^verbatim>\<open>client.WriteJSON(stats)\<close>.
\<close>

definition send_stats :: "SystemStats \<Rightarrow> conn \<Rightarrow> error option \<Rightarrow> WebServer \<Rightarrow> WebServer" where
  "send_stats stats client r ws =
     (case r of
        None \<Rightarrow> ws\<lparr>received := received ws @ [(client, stats)]\<rparr>
      | Some err \<Rightarrow>
          (let ws = Errorf (''Failed to send stats to client: '' @ ErrorText err) ws;
               ws = ws\<lparr>closed := insert client (closed ws)\<rparr>
           in ws\<lparr>clients := clients ws - {client}\<rparr>))"

text \<open>
  The loop, for the clients in the order the range over the map visits them and for the
  errors \<open>net\<close> of the writes.
\<close>

fun send_all :: "SystemStats \<Rightarrow> (conn \<Rightarrow> error option) \<Rightarrow> conn list \<Rightarrow> WebServer \<Rightarrow> WebServer" where
  "send_all stats net [] ws = ws"
| "send_all stats net (client # cs) ws = send_all stats net cs (send_stats stats client (net client) ws)"

text \<open>One tick of the ticker, run without another goroutine in between.\<close>

definition broadcast_tick :: "(conn \<Rightarrow> error option) \<Rightarrow> conn list \<Rightarrow> WebServer \<Rightarrow> WebServer" where
  "broadcast_tick net order ws =
     (case monitor ws (env ws) of
        (Inl err, w) \<Rightarrow> Errorf (''Failed to get system stats: '' @ ErrorText err) (ws\<lparr>env := w\<rparr>)
      | (Inr stats, w) \<Rightarrow> send_all stats net order (ws\<lparr>env := w\<rparr>))"

subsection \<open>The goroutines and the mutex\<close>


















section \<open>Sample systems\<close>

text \<open>
  \<open>sample_os\<close> is a board with the files of the scenarios: a load average of
  \<^verbatim>\<open>0.10 0.25 0.30\<close>, one thermal zone at 45000 millidegrees, a disk \<^verbatim>\<open>sda\<close> with 100 reads
  and 50 writes, and two exported GPIO pins, of which \<^verbatim>\<open>gpio18\<close> has a value file that
  holds a word and no number. Its memory query fails.
\<close>

definition sample_ParseFloat :: "string \<Rightarrow> error + float64" where
  "sample_ParseFloat s =
     (if s = ''0.10'' then Inr (Finite (1 / 10))
      else if s = ''0.25'' then Inr (Finite (1 / 4))
      else if s = ''0.30'' then Inr (Finite (3 / 10))
      else if s = ''45000'' then Inr (Finite 45000)
      else if s = ''NaN'' then Inr NaN
      else Inl ErrSyntax)"

definition sda_line :: string where
  "sda_line = ''8 0 sda 100 5 2000 30 50 2 1000 20 0 40 60''"

definition sample_os :: os where
  "sample_os =
     \<lparr>ReadFile = (\<lambda>path.
        if path = ''/proc/loadavg'' then Inr (''0.10 0.25 0.30 1/100 1234'' @ [CHR 0x0A])
        else if path = ''/sys/class/thermal/thermal_zone0/temp'' then Inr (''45000'' @ [CHR 0x0A])
        else if path = ''/sys/class/gpio/gpio17/direction'' then Inr (''in'' @ [CHR 0x0A])
        else if path = ''/sys/class/gpio/gpio17/value'' then Inr (''1'' @ [CHR 0x0A])
        else if path = ''/sys/class/gpio/gpio18/direction'' then Inr (''out'' @ [CHR 0x0A])
        else if path = ''/sys/class/gpio/gpio18/value'' then Inr (''high'' @ [CHR 0x0A])
        else Inl ErrNotExist),
      Open = (\<lambda>path.
        if path = ''/proc/diskstats'' then Inr (sda_line @ [CHR 0x0A]) else Inl ErrNotExist),
      Stat = (\<lambda>path. if path = ''/sys/class/gpio'' then None else Some ErrNotExist),
      ReadDir = (\<lambda>path.
        if path = ''/sys/class/gpio'' then Inr [''export'', ''gpio17'', ''gpio18'', ''unexport'']
        else Inl ErrNotExist),
      cpu_Percent = Inr [Finite 25],
      mem_VirtualMemory = Inl (ErrMsg ''no meminfo''),
      disk_Usage = (\<lambda>path.
        Inr \<lparr>UsageStat.Total = 1000, UsageStat.Free = 600, UsageStat.Used = 400,
             UsageStat.UsedPercent = Finite 40\<rparr>),
      ParseFloat = sample_ParseFloat,
      IntSize = 64\<rparr>"

text \<open>The same board with two figures only in the load average.\<close>

definition short_loadavg_os :: os where
  "short_loadavg_os = sample_os\<lparr>ReadFile := (\<lambda>path. Inr ''0.10 0.25'')\<rparr>"









section \<open>The snapshot build never fails\<close>

lemma getCPUStats_nil_error: "\<exists>stats. getCPUStats e = Inr stats"
  by (simp add: getCPUStats_def Let_def)

lemma getTemperatureStats_nil_error: "\<exists>stats. getTemperatureStats e = Inr stats"
  by (simp add: getTemperatureStats_def)

lemma getGPIOStats_nil_error: "\<exists>stats. getGPIOStats e = Inr stats"
  by (simp add: getGPIOStats_def Let_def split: sum.splits)

lemma getCPUStats_Temperature:
  "getCPUStats e = Inr stats \<Longrightarrow> CPUStats.Temperature stats = Finite 0"
  by (auto simp: getCPUStats_def Let_def CPUStats_zero_def split: sum.splits if_splits)

text \<open>
  What a build returns and what it does to the world: the snapshot, the clock moved on by
  the time of the five readers, and a warning for each of the memory and the disk
  reader that failed.
\<close>

lemma GetSystemStats_eq:
  "GetSystemStats w =
     (Inr \<lparr>SystemStats.Timestamp = clock w,
          SystemStats.CPU = (case getCPUStats (sys w) of Inr x \<Rightarrow> x | Inl err \<Rightarrow> CPUStats_zero),
          SystemStats.Memory = (case getMemoryStats (sys w) of Inr x \<Rightarrow> x | Inl err \<Rightarrow> MemStats_zero),
          SystemStats.Disk = (case getDiskStats (sys w) of Inr x \<Rightarrow> x | Inl err \<Rightarrow> DiskStats_zero),
          SystemStats.Temperature =
            (case getTemperatureStats (sys w) of Inr x \<Rightarrow> x | Inl err \<Rightarrow> TempStats_zero),
          SystemStats.GPIO = (case getGPIOStats (sys w) of Inr x \<Rightarrow> x | Inl err \<Rightarrow> GPIOStats_zero)\<rparr>,
      w\<lparr>clock := clock w + elapse w CPU_family + elapse w Memory_family + elapse w Disk_family
             + elapse w Temperature_family + elapse w GPIO_family,
        logged := logged w
          @ (case getMemoryStats (sys w) of
               Inr x \<Rightarrow> []
             | Inl err \<Rightarrow> [(WarnLevel, ''Failed to get memory stats: '' @ ErrorText err)])
          @ (case getDiskStats (sys w) of
               Inr x \<Rightarrow> []
             | Inl err \<Rightarrow> [(WarnLevel, ''Failed to get disk stats: '' @ ErrorText err)])\<rparr>)"
proof -
  obtain c where c: "getCPUStats (sys w) = Inr c"
    using getCPUStats_nil_error by blast
  obtain t where t: "getTemperatureStats (sys w) = Inr t"
    using getTemperatureStats_nil_error by blast
  obtain g where g: "getGPIOStats (sys w) = Inr g"
    using getGPIOStats_nil_error by blast
  show ?thesis
    by (cases "getMemoryStats (sys w)"; cases "getDiskStats (sys w)")
       (simp_all add: GetSystemStats_def call_reader_def Logf_def SystemStats_zero_def time_Now_def
          c t g)
qed

text \<open>
  C1. For every state of the operating system \<open>GetSystemStats\<close> returns a snapshot and a
  nil error. The snapshot has all six fields; each family holds the value its own reader
  returned, or the zero value of the family when that reader failed, whatever the other
  readers did.
\<close>

theorem GetSystemStats_snapshot:
  "fst (GetSystemStats w) =
     Inr \<lparr>SystemStats.Timestamp = time_Now w,
          SystemStats.CPU = (case getCPUStats (sys w) of Inr x \<Rightarrow> x | Inl err \<Rightarrow> CPUStats_zero),
          SystemStats.Memory = (case getMemoryStats (sys w) of Inr x \<Rightarrow> x | Inl err \<Rightarrow> MemStats_zero),
          SystemStats.Disk = (case getDiskStats (sys w) of Inr x \<Rightarrow> x | Inl err \<Rightarrow> DiskStats_zero),
          SystemStats.Temperature =
            (case getTemperatureStats (sys w) of Inr x \<Rightarrow> x | Inl err \<Rightarrow> TempStats_zero),
          SystemStats.GPIO = (case getGPIOStats (sys w) of Inr x \<Rightarrow> x | Inl err \<Rightarrow> GPIOStats_zero)\<rparr>"
  by (simp add: GetSystemStats_eq time_Now_def)

text \<open>
  C10. No reader assigns the field \<open>Temperature\<close> of the CPU family: \<open>getCPUStats\<close> returns
  it as 0 and so does every snapshot of \<open>GetSystemStats\<close>, whatever the sensors read.
\<close>

theorem CPU_Temperature_zero:
  "(\<exists>cpuStats. getCPUStats (sys w) = Inr cpuStats \<and> CPUStats.Temperature cpuStats = Finite 0) \<and>
   (\<exists>stats. fst (GetSystemStats w) = Inr stats \<and>
      CPUStats.Temperature (SystemStats.CPU stats) = Finite 0)"
proof -
  obtain c where c: "getCPUStats (sys w) = Inr c"
    using getCPUStats_nil_error by blast
  have "CPUStats.Temperature c = Finite 0"
    using c by (rule getCPUStats_Temperature)
  then show ?thesis
    by (simp add: GetSystemStats_eq c)
qed

lemma send_all_received:
  "received (send_all stats net cs ws) =
     received ws @ map (\<lambda>client. (client, stats)) (filter (\<lambda>client. net client = None) cs)"
  by (induction cs arbitrary: ws) (auto simp: send_stats_def Errorf_def Let_def split: option.splits)

text \<open>
  C7. The stamp of a snapshot is the instant at which \<open>GetSystemStats\<close> was called: the
  clock is read before the first reader runs, and when the build returns it has moved on
  by the time the five readers took. Every message a broadcast tick writes to a client
  carries the snapshot with that one stamp.
\<close>

theorem Timestamp_at_invocation:
  "\<exists>stats. fst (GetSystemStats w) = Inr stats \<and>
     SystemStats.Timestamp stats = time_Now w \<and>
     time_Now (snd (GetSystemStats w)) =
       time_Now w + elapse w CPU_family + elapse w Memory_family + elapse w Disk_family
         + elapse w Temperature_family + elapse w GPIO_family \<and>
     received (broadcast_tick net order (ws\<lparr>monitor := GetSystemStats, env := w\<rparr>)) =
       received ws @ map (\<lambda>client. (client, stats)) (filter (\<lambda>client. net client = None) order)"
  by (simp add: GetSystemStats_eq time_Now_def broadcast_tick_def send_all_received)

section \<open>The stats endpoint\<close>

lemma handleStats_Inr:
  "monitor ws (env ws) = (Inr stats, w) \<Longrightarrow>
   handleStats ws NewResponse =
     (\<lparr>header = [''Content-Type'' \<mapsto> ''application/json''],
       status = (if json_supported stats then Some 200 else None),
       body = (if json_supported stats then [JSON stats] else [])\<rparr>, ws\<lparr>env := w\<rparr>)"
  by (simp add: handleStats_def Encode_def Write_def WriteHeader_def Header_Set_def NewResponse_def)


text \<open>
  C9. \<open>getCPUStats\<close>, \<open>getTemperatureStats\<close> and \<open>getGPIOStats\<close> return a nil error for every
  state of the operating system. So a build logs a warning for the memory and the disk
  family only: it adds no line that starts with the message of one of the other three
  families; and \<open>handleStats\<close> with this monitor never writes the status 500: its reply
  has the status 200.
\<close>

theorem error_branches_unreachable:
  "(\<exists>stats. getCPUStats (sys w) = Inr stats) \<and>
   (\<exists>stats. getTemperatureStats (sys w) = Inr stats) \<and>
   (\<exists>stats. getGPIOStats (sys w) = Inr stats) \<and>
   logged (snd (GetSystemStats w)) =
     logged w
       @ (case getMemoryStats (sys w) of
            Inr x \<Rightarrow> []
          | Inl err \<Rightarrow> [(WarnLevel, ''Failed to get memory stats: '' @ ErrorText err)])
       @ (case getDiskStats (sys w) of
            Inr x \<Rightarrow> []
          | Inl err \<Rightarrow> [(WarnLevel, ''Failed to get disk stats: '' @ ErrorText err)]) \<and>
   filter (\<lambda>(l, msg). HasPrefix msg ''Failed to get CPU stats'' \<or>
                      HasPrefix msg ''Failed to get temperature stats'' \<or>
                      HasPrefix msg ''Failed to get GPIO stats'')
     (logged (snd (GetSystemStats w))) =
   filter (\<lambda>(l, msg). HasPrefix msg ''Failed to get CPU stats'' \<or>
                      HasPrefix msg ''Failed to get temperature stats'' \<or>
                      HasPrefix msg ''Failed to get GPIO stats'')
     (logged w) \<and>
   status (fst (handleStats (NewWebServer w) NewResponse)) \<noteq> Some 500 \<and>
   status (finishRequest (fst (handleStats (NewWebServer w) NewResponse))) = Some 200 \<and>
   status (fst (handleStats (ws\<lparr>monitor := GetSystemStats, env := w\<rparr>) NewResponse)) \<noteq> Some 500 \<and>
   status (finishRequest (fst (handleStats (ws\<lparr>monitor := GetSystemStats, env := w\<rparr>) NewResponse)))
     = Some 200"
  by (simp add: getCPUStats_nil_error getTemperatureStats_nil_error getGPIOStats_nil_error
      GetSystemStats_eq HasPrefix_def NewWebServer_def handleStats_Inr finishRequest_def
      WriteHeader_def split: sum.splits)






section \<open>The load average\<close>

lemma take_3: "3 \<le> length xs \<Longrightarrow> take 3 xs = [xs ! 0, xs ! 1, xs ! 2]"
  by (cases xs; cases "tl xs"; cases "tl (tl xs)") (auto simp: numeral_3_eq_3)

lemma parse_loads_3_isl:
  "isl (parse_loads pf [x, y, z]) = (isl (pf x) \<or> isl (pf y) \<or> isl (pf z))"
  by (cases "pf x"; cases "pf y"; cases "pf z") simp_all

lemma parse_loads_3_Inr:
  "pf x = Inr a \<Longrightarrow> pf y = Inr b \<Longrightarrow> pf z = Inr c \<Longrightarrow> parse_loads pf [x, y, z] = Inr [a, b, c]"
  by simp

lemma Fields_sample_loadavg:
  "Fields (''0.10 0.25 0.30 1/100 1234'' @ [CHR 0x0A]) =
     [''0.10'', ''0.25'', ''0.30'', ''1/100'', ''1234'']"
  by (simp add: Fields_def space_width_def space_encodings_def)

lemma Fields_short_loadavg: "Fields ''0.10 0.25'' = [''0.10'', ''0.25'']"
  by (simp add: Fields_def space_width_def space_encodings_def)

text \<open>
  C6. When \<^verbatim>\<open>/proc/loadavg\<close> reads as \<open>data\<close>: if \<open>data\<close> has at least three fields and the
  first three parse as \<open>a\<close>, \<open>b\<close> and \<open>c\<close>, \<open>readLoadAverage\<close> returns the list \<open>[a, b, c]\<close>; if
  it has fewer than three fields, or one of the first three does not parse, it returns
  an error.
\<close>

theorem readLoadAverage_fields:
  assumes "ReadFile e ''/proc/loadavg'' = Inr data"
  shows "(3 \<le> length (Fields data) \<and> ParseFloat e (Fields data ! 0) = Inr a \<and>
          ParseFloat e (Fields data ! 1) = Inr b \<and> ParseFloat e (Fields data ! 2) = Inr c
          \<longrightarrow> readLoadAverage e = Inr [a, b, c]) \<and>
         (length (Fields data) < 3 \<or> isl (ParseFloat e (Fields data ! 0)) \<or>
          isl (ParseFloat e (Fields data ! 1)) \<or> isl (ParseFloat e (Fields data ! 2))
          \<longrightarrow> isl (readLoadAverage e))"
proof (cases "length (Fields data) < 3")
  case True
  then show ?thesis
    using assms by (simp add: readLoadAverage_def)
next
  case False
  then have "take 3 (Fields data) = [Fields data ! 0, Fields data ! 1, Fields data ! 2]"
    by (simp add: take_3)
  then have "readLoadAverage e =
      parse_loads (ParseFloat e) [Fields data ! 0, Fields data ! 1, Fields data ! 2]"
    using assms False by (simp add: readLoadAverage_def Let_def del: parse_loads.simps)
  then show ?thesis
    using False by (simp add: parse_loads_3_isl parse_loads_3_Inr del: parse_loads.simps)
qed

theorem readLoadAverage_fields_witness:
  "readLoadAverage sample_os = Inr [Finite (1 / 10), Finite (1 / 4), Finite (3 / 10)] \<and>
   isl (readLoadAverage short_loadavg_os)"
proof -
  have "ReadFile sample_os ''/proc/loadavg'' = Inr (''0.10 0.25 0.30 1/100 1234'' @ [CHR 0x0A])"
    by (simp add: sample_os_def)
  from readLoadAverage_fields [OF this, of "Finite (1 / 10)" "Finite (1 / 4)" "Finite (3 / 10)"]
  have 1: "readLoadAverage sample_os = Inr [Finite (1 / 10), Finite (1 / 4), Finite (3 / 10)]"
    unfolding Fields_sample_loadavg by (simp add: sample_os_def sample_ParseFloat_def)
  have "ReadFile short_loadavg_os ''/proc/loadavg'' = Inr ''0.10 0.25''"
    by (simp add: short_loadavg_os_def)
  from readLoadAverage_fields [OF this]
  have 2: "isl (readLoadAverage short_loadavg_os)"
    unfolding Fields_short_loadavg by simp
  from 1 2 show ?thesis ..
qed

section \<open>The temperatures\<close>

lemma assign_sensor_fields:
  "TempStats.CPU (assign_sensor s sensor t) = (if sensor = ''cpu'' then t else TempStats.CPU s)"
  "TempStats.GPU (assign_sensor s sensor t) = (if sensor = ''gpu'' then t else TempStats.GPU s)"
  "TempStats.Board (assign_sensor s sensor t) = (if sensor = ''board'' then t else TempStats.Board s)"
  "TempStats.Ambient (assign_sensor s sensor t) =
     (if sensor = ''ambient'' then t else TempStats.Ambient s)"
  "TempStats.more (assign_sensor s sensor t) = TempStats.more s"
  by (simp_all add: assign_sensor_def)

text \<open>
  A field that the switch assigns for the sensor \<open>name\<close> only holds, after the loop over
  entries with distinct sensors, the reading of the path of \<open>name\<close>, or its old value when
  that reading failed or \<open>name\<close> is no entry.
\<close>

lemma temperature_loop_field:
  assumes get: "\<And>s sensor t. get (assign_sensor s sensor t) = (if sensor = name then t else get s)"
  shows "distinct (map fst ps) \<Longrightarrow>
    get (temperature_loop e s ps) =
      (case map_of ps name of
         None \<Rightarrow> get s
       | Some path \<Rightarrow> (case readTemperature e path of Inr t \<Rightarrow> t | Inl err \<Rightarrow> get s))"
proof (induction ps arbitrary: s)
  case Nil
  then show ?case by simp
next
  case (Cons p ps)
  obtain sensor path where p: "p = (sensor, path)"
    by (cases p)
  have d: "distinct (map fst ps)" and n: "map_of ps sensor = None"
    using Cons.prems by (auto simp: p map_of_eq_None_iff)
  show ?case
  proof (cases "readTemperature e path")
    case (Inl err)
    then show ?thesis
      using Cons.IH [OF d, of s] n by (auto simp: p)
  next
    case (Inr t)
    then show ?thesis
      using Cons.IH [OF d, of "assign_sensor s sensor t"] n
      by (auto simp: p get split: option.splits sum.splits)
  qed
qed

lemma temperature_loop_more:
  "TempStats.more (temperature_loop e s ps) = TempStats.more s"
  by (induction e s ps rule: temperature_loop.induct)
     (simp_all add: assign_sensor_fields split: sum.splits)

text \<open>The loop gives the same readings in whatever order it visits the four entries.\<close>

lemma temperature_loop_any_order:
  assumes "mset order = mset tempPaths"
  shows "temperature_loop e TempStats_zero order =
     \<lparr>TempStats.CPU =
        (case readTemperature e ''/sys/class/thermal/thermal_zone0/temp'' of
           Inr t \<Rightarrow> t | Inl err \<Rightarrow> Finite 0),
      TempStats.GPU =
        (case readTemperature e ''/sys/class/thermal/thermal_zone1/temp'' of
           Inr t \<Rightarrow> t | Inl err \<Rightarrow> Finite 0),
      TempStats.Board =
        (case readTemperature e ''/sys/class/thermal/thermal_zone2/temp'' of
           Inr t \<Rightarrow> t | Inl err \<Rightarrow> Finite 0),
      TempStats.Ambient =
        (case readTemperature e ''/sys/class/thermal/thermal_zone3/temp'' of
           Inr t \<Rightarrow> t | Inl err \<Rightarrow> Finite 0)\<rparr>"
proof -
  have dt: "distinct (map fst tempPaths)"
    by (simp add: tempPaths_def)
  have "mset (map fst order) = mset (map fst tempPaths)"
    using assms by (metis mset_map)
  then have d: "distinct (map fst order)"
    using dt by (metis mset_eq_imp_distinct_iff)
  have "set order = set tempPaths"
    using assms by (rule mset_eq_setD)
  then have m: "map_of order = map_of tempPaths"
    using d dt by (simp add: map_of_inject_set)
  have cpu: "TempStats.CPU (temperature_loop e TempStats_zero order) =
      (case readTemperature e ''/sys/class/thermal/thermal_zone0/temp'' of
         Inr t \<Rightarrow> t | Inl err \<Rightarrow> Finite 0)"
    using temperature_loop_field [of TempStats.CPU "''cpu''", OF assign_sensor_fields(1) d]
    by (simp add: m tempPaths_def TempStats_zero_def split: sum.splits)
  have gpu: "TempStats.GPU (temperature_loop e TempStats_zero order) =
      (case readTemperature e ''/sys/class/thermal/thermal_zone1/temp'' of
         Inr t \<Rightarrow> t | Inl err \<Rightarrow> Finite 0)"
    using temperature_loop_field [of TempStats.GPU "''gpu''", OF assign_sensor_fields(2) d]
    by (simp add: m tempPaths_def TempStats_zero_def split: sum.splits)
  have board: "TempStats.Board (temperature_loop e TempStats_zero order) =
      (case readTemperature e ''/sys/class/thermal/thermal_zone2/temp'' of
         Inr t \<Rightarrow> t | Inl err \<Rightarrow> Finite 0)"
    using temperature_loop_field [of TempStats.Board "''board''", OF assign_sensor_fields(3) d]
    by (simp add: m tempPaths_def TempStats_zero_def split: sum.splits)
  have ambient: "TempStats.Ambient (temperature_loop e TempStats_zero order) =
      (case readTemperature e ''/sys/class/thermal/thermal_zone3/temp'' of
         Inr t \<Rightarrow> t | Inl err \<Rightarrow> Finite 0)"
    using temperature_loop_field [of TempStats.Ambient "''ambient''", OF assign_sensor_fields(4) d]
    by (simp add: m tempPaths_def TempStats_zero_def split: sum.splits)
  show ?thesis
    by (rule TempStats.equality) (simp_all add: cpu gpu board ambient temperature_loop_more)
qed

lemma TrimSpace_45000: "TrimSpace (''45000'' @ [CHR 0x0A]) = ''45000''"
  by (simp add: TrimSpace_def space_width_def space_width_end_def space_encodings_def)

text \<open>
  C4. When a sensor file reads as \<open>data\<close> and \<open>data\<close>, without the white space around it,
  parses as the number \<open>n\<close>, \<open>readTemperature\<close> returns \<open>n / 1000\<close>. \<open>getTemperatureStats\<close>
  returns, in whatever order the loop visits the four sensors, for each sensor the
  reading of its own file, or 0 when that reading failed: no sensor changes the value
  of another.
\<close>

theorem readTemperature_millidegrees:
  "(ReadFile e path = Inr data \<and> ParseFloat e (TrimSpace data) = Inr (Finite n)
      \<longrightarrow> readTemperature e path = Inr (Finite (n / 1000))) \<and>
   (\<forall>order. mset order = mset tempPaths \<longrightarrow>
      getTemperatureStats e = Inr (temperature_loop e TempStats_zero order)) \<and>
   getTemperatureStats e =
     Inr \<lparr>TempStats.CPU =
            (case readTemperature e ''/sys/class/thermal/thermal_zone0/temp'' of
               Inr t \<Rightarrow> t | Inl err \<Rightarrow> Finite 0),
          TempStats.GPU =
            (case readTemperature e ''/sys/class/thermal/thermal_zone1/temp'' of
               Inr t \<Rightarrow> t | Inl err \<Rightarrow> Finite 0),
          TempStats.Board =
            (case readTemperature e ''/sys/class/thermal/thermal_zone2/temp'' of
               Inr t \<Rightarrow> t | Inl err \<Rightarrow> Finite 0),
          TempStats.Ambient =
            (case readTemperature e ''/sys/class/thermal/thermal_zone3/temp'' of
               Inr t \<Rightarrow> t | Inl err \<Rightarrow> Finite 0)\<rparr>"
proof (intro conjI allI impI)
  assume "ReadFile e path = Inr data \<and> ParseFloat e (TrimSpace data) = Inr (Finite n)"
  then show "readTemperature e path = Inr (Finite (n / 1000))"
    by (simp add: readTemperature_def)
next
  fix order :: "(string \<times> string) list"
  assume "mset order = mset tempPaths"
  then have "temperature_loop e TempStats_zero order = temperature_loop e TempStats_zero tempPaths"
    by (simp only: temperature_loop_any_order [of order] temperature_loop_any_order [of tempPaths])
  then show "getTemperatureStats e = Inr (temperature_loop e TempStats_zero order)"
    by (simp only: getTemperatureStats_def)
next
  show "getTemperatureStats e =
     Inr \<lparr>TempStats.CPU =
            (case readTemperature e ''/sys/class/thermal/thermal_zone0/temp'' of
               Inr t \<Rightarrow> t | Inl err \<Rightarrow> Finite 0),
          TempStats.GPU =
            (case readTemperature e ''/sys/class/thermal/thermal_zone1/temp'' of
               Inr t \<Rightarrow> t | Inl err \<Rightarrow> Finite 0),
          TempStats.Board =
            (case readTemperature e ''/sys/class/thermal/thermal_zone2/temp'' of
               Inr t \<Rightarrow> t | Inl err \<Rightarrow> Finite 0),
          TempStats.Ambient =
            (case readTemperature e ''/sys/class/thermal/thermal_zone3/temp'' of
               Inr t \<Rightarrow> t | Inl err \<Rightarrow> Finite 0)\<rparr>"
    by (simp only: getTemperatureStats_def temperature_loop_any_order [of tempPaths])
qed

theorem readTemperature_millidegrees_witness:
  "readTemperature sample_os ''/sys/class/thermal/thermal_zone0/temp'' = Inr (Finite 45) \<and>
   getTemperatureStats sample_os = Inr (temperature_loop sample_os TempStats_zero (rev tempPaths)) \<and>
   getTemperatureStats sample_os =
     Inr \<lparr>TempStats.CPU = Finite 45, TempStats.GPU = Finite 0, TempStats.Board = Finite 0,
          TempStats.Ambient = Finite 0\<rparr>"
proof -
  note T =
    readTemperature_millidegrees
      [of sample_os "''/sys/class/thermal/thermal_zone0/temp''" "''45000'' @ [CHR 0x0A]" 45000]
  have f: "ReadFile sample_os ''/sys/class/thermal/thermal_zone0/temp'' = Inr (''45000'' @ [CHR 0x0A])"
    by (simp add: sample_os_def)
  have "ParseFloat sample_os ''45000'' = Inr (Finite 45000)"
    by (simp add: sample_os_def sample_ParseFloat_def)
  then have number: "ParseFloat sample_os (TrimSpace (''45000'' @ [CHR 0x0A])) = Inr (Finite 45000)"
    by (simp only: TrimSpace_45000)
  have 1: "readTemperature sample_os ''/sys/class/thermal/thermal_zone0/temp'' = Inr (Finite 45)"
    using T [THEN conjunct1] f number by simp
  have 2: "getTemperatureStats sample_os =
      Inr (temperature_loop sample_os TempStats_zero (rev tempPaths))"
    using T [THEN conjunct2, THEN conjunct1, THEN spec, of "rev tempPaths"] by simp
  have absent:
    "readTemperature sample_os ''/sys/class/thermal/thermal_zone1/temp'' = Inl ErrNotExist"
    "readTemperature sample_os ''/sys/class/thermal/thermal_zone2/temp'' = Inl ErrNotExist"
    "readTemperature sample_os ''/sys/class/thermal/thermal_zone3/temp'' = Inl ErrNotExist"
    by (simp_all add: readTemperature_def sample_os_def)
  have 3: "getTemperatureStats sample_os =
      Inr \<lparr>TempStats.CPU = Finite 45, TempStats.GPU = Finite 0, TempStats.Board = Finite 0,
           TempStats.Ambient = Finite 0\<rparr>"
    using T [THEN conjunct2, THEN conjunct2] by (simp add: 1 absent)
  from 1 2 3 show ?thesis
    by (intro conjI)
qed

section \<open>The disk counters\<close>














section \<open>The GPIO pins\<close>











section \<open>The registry of the clients\<close>






















end
